theory Spec2Isabelle
  imports Complex_Main "HOL-Library.Word"
begin

section \<open>Arrays and tensors\<close>

text \<open>
  A numpy array or TensorFlow tensor is its shape and its elements in row-major order
  (channels last). The elements of a float32 tensor are modelled as reals: rounding,
  infinities and NaN are outside the model. Element-wise operations of two tensors are
  modelled for operands of one shape, as the script has them (\<open>delta\<close> is
  \<open>zeros_like(baseImage)\<close>); broadcasting of different shapes is not modelled.
\<close>

record 'a ndarray =
  shape :: "nat list"
  data :: "'a list"

type_synonym uint8 = "8 word"
type_synonym image = "uint8 ndarray"
type_synonym tensor = "real ndarray"

definition map_array :: "('a \<Rightarrow> 'b) \<Rightarrow> 'a ndarray \<Rightarrow> 'b ndarray" where
  "map_array f a = \<lparr>shape = shape a, data = map f (data a)\<rparr>"

text \<open>\<open>a + b\<close> on tensors.\<close>

definition tensor_add :: "tensor \<Rightarrow> tensor \<Rightarrow> tensor" where
  "tensor_add a b = \<lparr>shape = shape a, data = map2 (+) (data a) (data b)\<rparr>"

text \<open>\<open>tf.zeros_like\<close>.\<close>

definition zeros_like :: "tensor \<Rightarrow> tensor" where
  "zeros_like t = map_array (\<lambda>_. 0) t"

text \<open>\<open>tf.constant(input_image, dtype=tf.float32)\<close>: every byte becomes the float of its value.\<close>

definition tf_constant :: "image \<Rightarrow> tensor" where
  "tf_constant img = map_array (\<lambda>w. real (unat w)) img"

text \<open>
  \<open>tf.clip_by_value(t, clip_value_min, clip_value_max)\<close> takes the minimum with the
  upper bound first and the maximum with the lower bound second.
\<close>

definition clip_by_value :: "tensor \<Rightarrow> real \<Rightarrow> real \<Rightarrow> tensor" where
  "clip_by_value t clip_value_min clip_value_max =
     map_array (\<lambda>x. max (min x clip_value_max) clip_value_min) t"

text \<open>\<open>np.clip(a, a_min, a_max)\<close> is \<open>minimum(a_max, maximum(a, a_min))\<close>.\<close>

definition np_clip :: "tensor \<Rightarrow> real \<Rightarrow> real \<Rightarrow> tensor" where
  "np_clip a a_min a_max = map_array (\<lambda>x. min a_max (max x a_min)) a"

text \<open>
  \<open>.astype("uint8")\<close> of a float array: the C conversion, which truncates toward zero. A
  value outside 0..255 is reduced modulo 256 here (what the usual platforms do; C leaves
  it undefined); the script clips first, so the case does not arise in it.
\<close>

definition to_integer :: "real \<Rightarrow> int" where
  "to_integer x = (if 0 \<le> x then \<lfloor>x\<rfloor> else \<lceil>x\<rceil>)"

definition astype_uint8 :: "tensor \<Rightarrow> image" where
  "astype_uint8 a = map_array (\<lambda>x. (word_of_int (to_integer x) :: uint8)) a"

text \<open>\<open>np.expand_dims(image, axis=0)\<close> and \<open>.squeeze()\<close> change the shape only.\<close>

definition expand_dims0 :: "'a ndarray \<Rightarrow> 'a ndarray" where
  "expand_dims0 a = a\<lparr>shape := 1 # shape a\<rparr>"

definition squeeze :: "'a ndarray \<Rightarrow> 'a ndarray" where
  "squeeze a = a\<lparr>shape := filter (\<lambda>d. d \<noteq> 1) (shape a)\<rparr>"

text \<open>
  \<open>cv2.cvtColor\<close> with \<open>COLOR_BGR2RGB\<close> or \<open>COLOR_RGB2BGR\<close> (one conversion code in
  OpenCV): the first and the third channel of every pixel change places. The images of
  the script have three channels.
\<close>

datatype color_code = COLOR_BGR2RGB | COLOR_RGB2BGR

fun swap_channels :: "'a list \<Rightarrow> 'a list" where
  "swap_channels (c0 # c1 # c2 # rest) = c2 # c1 # c0 # swap_channels rest"
| "swap_channels xs = xs"

definition cvtColor :: "'a ndarray \<Rightarrow> color_code \<Rightarrow> 'a ndarray" where
  "cvtColor img code =
     (case code of
        COLOR_BGR2RGB \<Rightarrow> img\<lparr>data := swap_channels (data img)\<rparr>
      | COLOR_RGB2BGR \<Rightarrow> img\<lparr>data := swap_channels (data img)\<rparr>)"

section \<open>Errors, output and the framework\<close>

datatype error = CvError | TypeError | IndexError

datatype pyval =
    Str string
  | IntVal int
  | NoneVal
  | Predictions "(string \<times> string \<times> real) list"

text \<open>
  What a run does to the outside, in order: lines printed, files read and written,
  weights loaded, classifier calls, the window.
\<close>

datatype event =
    Print "pyval list"
  | PrintLoss nat real
  | ImRead string
  | LoadModel string
  | Predict string tensor
  | ImWrite string image
  | ImShow string image
  | WaitKey int

datatype outcome = Exited int | Raised error | Completed

text \<open>
  The libraries the script calls (OpenCV, Keras, TensorFlow) and the contents of
  \<open>imagenet_index.json\<close> are parameters of the model. \<open>'w\<close> is a classifier's weights,
  \<open>'o\<close> the optimizer's internal state (Adam's moments and iteration counter).
  \<open>call\<close> is a classifier applied in inference mode (\<open>model(x, training=False)\<close>,
  \<open>model.predict(x)\<close>): a function of the weights and the input, giving the scores of the
  one image of the batch. \<open>decode_predictions\<close> is \<open>decode_predictions(p, top=k)[0]\<close>.
  \<open>gradient f d\<close> is the gradient at \<open>d\<close> of a loss recorded on the tape as a
  function \<open>f\<close> of the watched variable. \<open>apply_gradients\<close> is one update of one variable:
  from the optimizer's state, the gradient and the variable's value to the new state and
  the new value.
\<close>

record ('w, 'o) framework =
  imagenet_index :: "string \<rightharpoonup> int"
  imread :: "string \<Rightarrow> image option"
  resize :: "image \<Rightarrow> nat \<times> nat \<Rightarrow> image"
  preprocess_input :: "tensor \<Rightarrow> tensor"
  mobilenet_preprocess_input :: "tensor \<Rightarrow> tensor"
  ResNet50 :: "string \<Rightarrow> 'w"
  MobileNetV2 :: "string \<Rightarrow> 'w"
  call :: "'w \<Rightarrow> tensor \<Rightarrow> real list"
  decode_predictions :: "real list \<Rightarrow> nat \<Rightarrow> (string \<times> string \<times> real) list"
  mobilenet_decode_predictions :: "real list \<Rightarrow> nat \<Rightarrow> (string \<times> string \<times> real) list"
  sccLoss :: "int \<Rightarrow> real list \<Rightarrow> real"
  gradient :: "(tensor \<Rightarrow> real) \<Rightarrow> tensor \<Rightarrow> tensor"
  Adam :: "real \<Rightarrow> 'o"
  apply_gradients :: "'o \<Rightarrow> tensor \<Rightarrow> tensor \<Rightarrow> 'o \<times> tensor"
  format_text :: "string \<Rightarrow> real \<Rightarrow> string"
  putText :: "image \<Rightarrow> string \<Rightarrow> image"

section \<open>Label Index Resolver\<close>

text \<open>
  A character is a code point below 256. \<open>str.lower()\<close> moves the capital letters
  A..Z and the capital letters of Latin-1 (U+00C0..U+00DE without the multiplication
  sign U+00D7) 32 places up and leaves every other such character alone.
\<close>

definition lower_char :: "char \<Rightarrow> char" where
  "lower_char c =
     (let n = (of_char c :: nat)
      in if (65 \<le> n \<and> n \<le> 90) \<or> (192 \<le> n \<and> n \<le> 222 \<and> n \<noteq> 215)
         then char_of (n + 32) else c)"

definition lower :: "string \<Rightarrow> string" where
  "lower s = map lower_char s"

text \<open>\<open>s.replace(old, new)\<close> for one-character \<open>old\<close> and \<open>new\<close>.\<close>

definition replace :: "string \<Rightarrow> char \<Rightarrow> char \<Rightarrow> string" where
  "replace s old new = map (\<lambda>c. if c = old then new else c) s"

text \<open>
  \<open>get_target_class_index(label)\<close>; the dictionary that \<open>json.load\<close> reads from
  \<open>imagenet_index.json\<close> is the argument \<open>mapping_dict\<close>.
\<close>

definition get_target_class_index :: "(string \<rightharpoonup> int) \<Rightarrow> string \<Rightarrow> int option" where
  "get_target_class_index mapping_dict label =
     (let label = replace (lower label) (CHR ''_'') (CHR '' '')
      in mapping_dict label)"

section \<open>Image Preprocessor\<close>

text \<open>
  \<open>preprocess_image(image)\<close>. \<open>cv2.imread\<close> gives \<open>None\<close> for a file it cannot read, and
  \<open>cv2.cvtColor\<close> raises on it. \<open>resize fw\<close> is \<open>cv2.resize\<close>.
\<close>

definition preprocess_image :: "('w, 'o) framework \<Rightarrow> image option \<Rightarrow> error + image" where
  "preprocess_image fw img =
     (case img of
        None \<Rightarrow> Inl CvError
      | Some img \<Rightarrow>
          (let img = cvtColor img COLOR_BGR2RGB;
               img = resize fw img (224, 224);
               img = expand_dims0 img
           in Inr img))"

section \<open>Perturbation Optimizer\<close>

text \<open>
  The objects the optimization loop reads and writes: the module-level \<open>baseImage\<close>,
  \<open>epsilon\<close> and \<open>optimizer\<close>, the variable \<open>delta\<close> (the argument \<open>delta\<close> of
  \<open>generate_target_adversaries\<close> is a reference to it), the weights of the classifier and
  the lines printed. \<open>losses\<close> is a history added for reasoning: the \<open>totalLoss\<close> of every
  iteration executed, in order.
\<close>

record ('w, 'o) tf_state =
  baseImage :: tensor
  epsilon :: real
  delta :: tensor
  weights :: 'w
  optimizer :: 'o
  stdout :: "event list"
  losses :: "real list"

definition clip_eps :: "tensor \<Rightarrow> real \<Rightarrow> tensor" where
  "clip_eps tensor eps = clip_by_value tensor (- eps) eps"

text \<open>
  The loss recorded on the tape, as a function of the value \<open>d\<close> of the watched variable.
\<close>

definition total_loss ::
  "('w, 'o) framework \<Rightarrow> ('w \<Rightarrow> tensor \<Rightarrow> real list) \<Rightarrow> ('w, 'o) tf_state \<Rightarrow> int \<Rightarrow> int \<Rightarrow> tensor \<Rightarrow> real" where
  "total_loss fw model s original_class_index target_class_index d =
     (let adversary = preprocess_input fw (tensor_add (baseImage s) d);
          predictions = model (weights s) adversary;
          originalLoss = - sccLoss fw original_class_index predictions;
          targetLoss = sccLoss fw target_class_index predictions
      in originalLoss + targetLoss)"

text \<open>
  One iteration of the loop. \<open>int(None)\<close> raises \<open>TypeError\<close>; the driver passes the
  result of the resolver, which is \<open>None\<close> for a label it does not know.
\<close>

definition loop_body ::
  "('w, 'o) framework \<Rightarrow> ('w \<Rightarrow> tensor \<Rightarrow> real list) \<Rightarrow> int option \<Rightarrow> int option \<Rightarrow> nat
     \<Rightarrow> ('w, 'o) tf_state \<Rightarrow> error + ('w, 'o) tf_state" where
  "loop_body fw model original_class_index target_class_index step s =
     (case original_class_index of
        None \<Rightarrow> Inl TypeError
      | Some oi \<Rightarrow>
     (case target_class_index of
        None \<Rightarrow> Inl TypeError
      | Some ti \<Rightarrow>
          (let totalLoss = total_loss fw model s oi ti (delta s);
               out = (if step mod 10 = 0 then stdout s @ [PrintLoss step totalLoss] else stdout s);
               gradients = gradient fw (total_loss fw model s oi ti) (delta s);
               (opt, d) = apply_gradients fw (optimizer s) gradients (delta s);
               d = tensor_add d (clip_eps d (epsilon s))
           in Inr (s\<lparr>delta := d, optimizer := opt, stdout := out,
                     losses := losses s @ [totalLoss]\<rparr>))))"

text \<open>\<open>for step in range(...)\<close>: the body for each step in turn, stopping at an exception.\<close>

fun for_steps ::
  "(nat \<Rightarrow> 's \<Rightarrow> error + 's) \<Rightarrow> nat list \<Rightarrow> 's \<Rightarrow> error + 's" where
  "for_steps body [] s = Inr s"
| "for_steps body (step # rest) s =
     (case body step s of Inl e \<Rightarrow> Inl e | Inr s' \<Rightarrow> for_steps body rest s')"

text \<open>
  \<open>generate_target_adversaries\<close>. The returned \<open>delta\<close> is the field \<open>delta\<close> of the
  state returned. The argument \<open>base_image\<close> is not read: the body reads the
  module-level \<open>baseImage\<close>.
\<close>

definition generate_target_adversaries ::
  "('w, 'o) framework \<Rightarrow> ('w \<Rightarrow> tensor \<Rightarrow> real list) \<Rightarrow> tensor \<Rightarrow> int option \<Rightarrow> int option \<Rightarrow> int
     \<Rightarrow> ('w, 'o) tf_state \<Rightarrow> error + ('w, 'o) tf_state" where
  "generate_target_adversaries fw model base_image original_class_index target_class_index steps s =
     for_steps (loop_body fw model original_class_index target_class_index) [0 ..< nat steps] s"

section \<open>Attack Driver\<close>

text \<open>
  Lines 123 to 125 of the driver: the image that \<open>cv2.imwrite\<close> stores in \<open>output.png\<close>.
\<close>

definition adversarial_image :: "tensor \<Rightarrow> tensor \<Rightarrow> image" where
  "adversarial_image base deltaUpdated =
     (let adverImage = squeeze (tensor_add base deltaUpdated);
          adverImage = astype_uint8 (np_clip adverImage 0 255);
          adverImage = cvtColor adverImage COLOR_RGB2BGR
      in adverImage)"

definition index_val :: "int option \<Rightarrow> pyval" where
  "index_val i = (case i of None \<Rightarrow> NoneVal | Some n \<Rightarrow> IntVal n)"

text \<open>
  The driver, from the parsed arguments on. It gives the events of the run in order and
  how the run ends. \<open>preprocess_input\<close> of the uint8 array \<open>input_image\<close> converts it to
  floats first. \<open>predictions[0]\<close> raises \<open>IndexError\<close> on an empty list.
\<close>

definition main :: "('w, 'o) framework \<Rightarrow> string \<Rightarrow> string \<Rightarrow> event list \<times> outcome" where
  "main fw file_in target_class =
     (case get_target_class_index (imagenet_index fw) target_class of
        None \<Rightarrow> ([Print [Str ''Error: Target class does not exist in ImageNet.'']], Exited 0)
      | Some target_index \<Rightarrow>
     (let out = [Print [Str ''Input Filename: '', Str file_in],
                 Print [Str ''Target Class: '', Str target_class],
                 Print [Str ''Target Class Index: '', IntVal target_index],
                 ImRead file_in]
      in case preprocess_image fw (imread fw file_in) of
        Inl e \<Rightarrow> (out, Raised e)
      | Inr input_image \<Rightarrow>
     (let preprocessed_input = preprocess_input fw (tf_constant input_image);
          model = ResNet50 fw ''imagenet'';
          predictions = decode_predictions fw (call fw model preprocessed_input) 3;
          out = out @ [LoadModel ''ResNet50'', Predict ''ResNet50'' preprocessed_input,
                       Print [Str ''Top 3 Predictions: '', Predictions predictions]]
      in case predictions of
        [] \<Rightarrow> (out, Raised IndexError)
      | (class_id, original_label, original_confidence) # _ \<Rightarrow>
     (let original_index = get_target_class_index (imagenet_index fw) original_label;
          out = out @ [Print [Str ''Original Class Index: '', index_val original_index]];
          learning_rate = 1 / 100;
          num_of_steps = 100;
          s = \<lparr>baseImage = tf_constant input_image,
               epsilon = 2 / 255,
               delta = zeros_like (tf_constant input_image),
               weights = model,
               optimizer = Adam fw learning_rate,
               stdout = out,
               losses = []\<rparr>
      in case generate_target_adversaries fw (call fw) (baseImage s) original_index
                (Some target_index) num_of_steps s of
        Inl e \<Rightarrow> (out, Raised e)
      | Inr s \<Rightarrow>
     (let deltaUpdated = delta s;
          adverImage = adversarial_image (baseImage s) deltaUpdated;
          out = stdout s @ [ImWrite ''output.png'' adverImage];
          preprocessed_input = preprocess_input fw (tensor_add (baseImage s) deltaUpdated);
          predictions = decode_predictions fw (call fw (weights s) preprocessed_input) 3;
          out = out @ [Predict ''ResNet50'' preprocessed_input,
                       Print [Str ''Top 3 Predictions on Adversarial Image: '', Predictions predictions]]
      in case predictions of
        [] \<Rightarrow> (out, Raised IndexError)
      | (class_id, adv_label, adv_confidence) # _ \<Rightarrow>
     (let label_text = format_text fw adv_label (adv_confidence * 100);
          adverImage = putText fw adverImage label_text;
          out = out @ [ImShow ''Output'' adverImage, WaitKey 0];
          model2 = MobileNetV2 fw ''imagenet'';
          preprocessed_input2 = mobilenet_preprocess_input fw (tensor_add (baseImage s) deltaUpdated);
          predictions2 = mobilenet_decode_predictions fw (call fw model2 preprocessed_input2) 3
      in (out @ [LoadModel ''MobileNetV2'', Predict ''MobileNetV2'' preprocessed_input2,
                 Print [Str ''Top 3 Predictions with MobileNetV2: '', Predictions predictions2]],
          Completed)))))))"

section \<open>A small framework to run the model on\<close>

text \<open>
  Mean-centering as Keras does it for ResNet50: the channels of every pixel are put in
  BGR order and the ImageNet mean of each channel is subtracted.
\<close>

fun subtract_means :: "real list \<Rightarrow> real list" where
  "subtract_means (b # g # r # rest) =
     (b - 103939 / 1000) # (g - 116779 / 1000) # (r - 12368 / 100) # subtract_means rest"
| "subtract_means xs = xs"

definition mean_center :: "tensor \<Rightarrow> tensor" where
  "mean_center x = x\<lparr>data := subtract_means (swap_channels (data x))\<rparr>"

text \<open>An optimizer that moves every element by the learning rate against the sign of its gradient.\<close>

definition sign_step :: "real \<times> nat \<Rightarrow> tensor \<Rightarrow> tensor \<Rightarrow> (real \<times> nat) \<times> tensor" where
  "sign_step opt g v =
     ((fst opt, Suc (snd opt)),
      \<lparr>shape = shape v, data = map2 (\<lambda>x gx. x - fst opt * sgn gx) (data v) (data g)\<rparr>)"

definition sample_framework :: "(real list, real \<times> nat) framework" where
  "sample_framework =
     \<lparr>imagenet_index = map_of [(''tabby'', 281), (''golf ball'', 574), (''soccer ball'', 805)],
      imread = (\<lambda>f. if f = ''cat.png'' then Some \<lparr>shape = [1, 1, 3], data = [10, 20, 30]\<rparr> else None),
      resize = (\<lambda>img dsize. img),
      preprocess_input = mean_center,
      mobilenet_preprocess_input = map_array (\<lambda>x. x / (1275 / 10) - 1),
      ResNet50 = (\<lambda>w. [1, 2, 3]),
      MobileNetV2 = (\<lambda>w. [3, 2, 1]),
      call = (\<lambda>w x. map2 (*) w (data x)),
      decode_predictions = (\<lambda>p k. take k [(''n02123045'', ''tabby'', 1 / 2),
                                            (''n03445777'', ''golf_ball'', 1 / 4),
                                            (''n04254680'', ''soccer_ball'', 1 / 8)]),
      mobilenet_decode_predictions = (\<lambda>p k. take k [(''n03445777'', ''golf_ball'', 1 / 2)]),
      sccLoss = (\<lambda>i p. of_int i * sum_list p),
      gradient = (\<lambda>f d. map_array (\<lambda>_. 1) d),
      Adam = (\<lambda>lr. (lr, 0)),
      apply_gradients = sign_step,
      format_text = (\<lambda>l c. l),
      putText = (\<lambda>img t. img)\<rparr>"

definition sample_state :: "(real list, real \<times> nat) tf_state" where
  "sample_state =
     \<lparr>baseImage = \<lparr>shape = [1, 1, 1, 3], data = [30, 20, 10]\<rparr>,
      epsilon = 2 / 255,
      delta = \<lparr>shape = [1, 1, 1, 3], data = [0, 0, 0]\<rparr>,
      weights = [1, 2, 3],
      optimizer = (1 / 100, 0),
      stdout = [],
      losses = []\<rparr>"

text \<open>A \<open>cv2.resize\<close> that fills the new size with the first pixel of the image.\<close>

definition fill_resize :: "image \<Rightarrow> nat \<times> nat \<Rightarrow> image" where
  "fill_resize img dsize =
     \<lparr>shape = [snd dsize, fst dsize, 3],
      data = concat (replicate (snd dsize * fst dsize) (take 3 (data img)))\<rparr>"

section \<open>The Image Preprocessor as the specification words it\<close>

text \<open>
  The specification's Image Preprocessor: channel order, resizing, batch dimension and
  the classifier's normalization in one function. It is compared with
  \<open>preprocess_image\<close> below.
\<close>

definition image_preprocessor_spec :: "('w, 'o) framework \<Rightarrow> image option \<Rightarrow> error + tensor" where
  "image_preprocessor_spec fw img =
     (case img of
        None \<Rightarrow> Inl CvError
      | Some img \<Rightarrow>
          Inr (preprocess_input fw
                 (tf_constant (expand_dims0 (resize fw (cvtColor img COLOR_BGR2RGB) (224, 224))))))"

section \<open>Labels that differ in case or in underscores\<close>

text \<open>
  \<open>capital c\<close>: \<open>c\<close> is a capital letter (of ASCII or Latin-1). \<open>case_variant u l\<close>:
  \<open>l\<close> is the small letter of the capital \<open>u\<close>. Two characters are the same up to case and
  underscores when they are equal, when one is the small letter of the other, or when
  each is an underscore or a space; two labels, when they are so character by character.
\<close>

definition capital :: "char \<Rightarrow> bool" where
  "capital c =
     (let n = (of_char c :: nat)
      in (65 \<le> n \<and> n \<le> 90) \<or> (192 \<le> n \<and> n \<le> 222 \<and> n \<noteq> 215))"

definition case_variant :: "char \<Rightarrow> char \<Rightarrow> bool" where
  "case_variant u l = (capital u \<and> (of_char l :: nat) = of_char u + 32)"

definition same_label_char :: "char \<Rightarrow> char \<Rightarrow> bool" where
  "same_label_char c d =
     (c = d \<or> case_variant c d \<or> case_variant d c \<or>
      ((c = CHR ''_'' \<or> c = CHR '' '') \<and> (d = CHR ''_'' \<or> d = CHR '' '')))"

definition same_label :: "string \<Rightarrow> string \<Rightarrow> bool" where
  "same_label s t = list_all2 same_label_char s t"

definition normal_char :: "char \<Rightarrow> char" where
  "normal_char c = (if lower_char c = CHR ''_'' then CHR '' '' else lower_char c)"

section \<open>The loop\<close>

lemma for_steps_append:
  "for_steps body (xs @ ys) s =
     (case for_steps body xs s of Inl e \<Rightarrow> Inl e | Inr s' \<Rightarrow> for_steps body ys s')"
  by (induction xs arbitrary: s) (auto split: sum.splits)

lemma loop_body_Some:
  "loop_body fw model (Some oi) (Some ti) step s =
     Inr (s\<lparr>delta := tensor_add (snd (apply_gradients fw (optimizer s)
                       (gradient fw (total_loss fw model s oi ti) (delta s)) (delta s)))
                     (clip_eps (snd (apply_gradients fw (optimizer s)
                       (gradient fw (total_loss fw model s oi ti) (delta s)) (delta s))) (epsilon s)),
            optimizer := fst (apply_gradients fw (optimizer s)
                       (gradient fw (total_loss fw model s oi ti) (delta s)) (delta s)),
            stdout := (if step mod 10 = 0
                       then stdout s @ [PrintLoss step (total_loss fw model s oi ti (delta s))]
                       else stdout s),
            losses := losses s @ [total_loss fw model s oi ti (delta s)]\<rparr>)"
  by (simp add: loop_body_def Let_def split: prod.splits)

lemma for_steps_frame:
  "\<exists>s'. for_steps (loop_body fw model (Some oi) (Some ti)) xs s = Inr s'
      \<and> baseImage s' = baseImage s \<and> weights s' = weights s \<and> epsilon s' = epsilon s
      \<and> (\<exists>ls. losses s' = losses s @ ls \<and> length ls = length xs)"
proof (induction xs arbitrary: s)
  case Nil
  then show ?case by simp
next
  case (Cons x xs)
  obtain s1 where s1: "loop_body fw model (Some oi) (Some ti) x s = Inr s1"
    and f1: "baseImage s1 = baseImage s" "weights s1 = weights s" "epsilon s1 = epsilon s"
    and l1: "losses s1 = losses s @ [total_loss fw model s oi ti (delta s)]"
    by (simp add: loop_body_Some)
  from Cons.IH [of s1] obtain s' ls where
    "for_steps (loop_body fw model (Some oi) (Some ti)) xs s1 = Inr s'"
    "baseImage s' = baseImage s1" "weights s' = weights s1" "epsilon s' = epsilon s1"
    "losses s' = losses s1 @ ls" "length ls = length xs"
    by blast
  with s1 f1 l1 show ?case by simp
qed

lemma upt_split: "k \<le> n \<Longrightarrow> [0..<n] = [0..<k] @ [k..<n]"
  by (metis le_add_diff_inverse upt_add_eq_append zero_le)

lemma run_upto:
  "\<exists>s'. for_steps (loop_body fw model (Some oi) (Some ti)) [0..<n] s = Inr s'
      \<and> length (losses s') = length (losses s) + n
      \<and> stdout s' = stdout s @ map (\<lambda>k. PrintLoss k (losses s' ! (length (losses s) + k)))
                                 (filter (\<lambda>k. k mod 10 = 0) [0..<n])"
proof (induction n)
  case 0
  then show ?case by simp
next
  case (Suc n)
  let ?body = "loop_body fw model (Some oi) (Some ti)"
  from Suc obtain s1 where r1: "for_steps ?body [0..<n] s = Inr s1"
    and len1: "length (losses s1) = length (losses s) + n"
    and out1: "stdout s1 = stdout s @ map (\<lambda>k. PrintLoss k (losses s1 ! (length (losses s) + k)))
                                 (filter (\<lambda>k. k mod 10 = 0) [0..<n])"
    by blast
  define l where "l = total_loss fw model s1 oi ti (delta s1)"
  obtain s2 where r2: "?body n s1 = Inr s2"
    and l2: "losses s2 = losses s1 @ [l]"
    and out2: "stdout s2 = (if n mod 10 = 0 then stdout s1 @ [PrintLoss n l] else stdout s1)"
    by (simp add: loop_body_Some l_def)
  have run: "for_steps ?body [0..<Suc n] s = Inr s2"
    using r1 r2 by (simp add: for_steps_append)
  have old: "losses s2 ! (length (losses s) + k) = losses s1 ! (length (losses s) + k)" if "k < n" for k
    using that len1 by (simp add: l2 nth_append)
  have new: "losses s2 ! (length (losses s) + n) = l"
    using len1 by (simp add: l2 nth_append)
  have same: "map (\<lambda>k. PrintLoss k (losses s1 ! (length (losses s) + k))) (filter (\<lambda>k. k mod 10 = 0) [0..<n])
            = map (\<lambda>k. PrintLoss k (losses s2 ! (length (losses s) + k))) (filter (\<lambda>k. k mod 10 = 0) [0..<n])"
    by (rule map_cong) (simp_all add: old)
  have "stdout s2 = stdout s @ map (\<lambda>k. PrintLoss k (losses s2 ! (length (losses s) + k)))
                                 (filter (\<lambda>k. k mod 10 = 0) [0..<Suc n])"
    using out1 by (simp add: out2 same new)
  moreover have "length (losses s2) = length (losses s) + Suc n"
    by (simp add: l2 len1)
  ultimately show ?case using run by blast
qed

text \<open>
  C5. For a step budget \<open>steps \<ge> 0\<close> and class indices that are integers, the
  optimizer returns after exactly \<open>steps\<close> iterations (the history of losses grows by
  \<open>steps\<close> entries), whatever the classifier, the loss and the optimizer compute; and the
  lines it prints are exactly the combined losses of the steps \<open>0, 10, 20, ...\<close> below
  \<open>steps\<close>, in order.
\<close>

theorem fixed_iteration_count:
  assumes "0 \<le> steps"
  shows "\<exists>s'. generate_target_adversaries fw model base_image (Some oi) (Some ti) steps s = Inr s'
      \<and> int (length (losses s')) = int (length (losses s)) + steps
      \<and> stdout s' = stdout s @ map (\<lambda>k. PrintLoss k (losses s' ! (length (losses s) + k)))
                                 (filter (\<lambda>k. k mod 10 = 0) [0..<nat steps])"
proof -
  from run_upto [of fw model oi ti "nat steps" s] obtain s' where
    "for_steps (loop_body fw model (Some oi) (Some ti)) [0..<nat steps] s = Inr s'"
    "length (losses s') = length (losses s) + nat steps"
    "stdout s' = stdout s @ map (\<lambda>k. PrintLoss k (losses s' ! (length (losses s) + k)))
                                 (filter (\<lambda>k. k mod 10 = 0) [0..<nat steps])"
    by blast
  with assms show ?thesis
    by (simp add: generate_target_adversaries_def)
qed

text \<open>
  C2. At every step \<open>k\<close> of a run, the combined loss of that step is the negated
  cross-entropy for the original class plus the cross-entropy for the target class, both
  of the scores the classifier gives for \<open>preprocess_input(baseImage + delta)\<close> at the
  value \<open>delta\<close> has after the \<open>k\<close> steps before.
\<close>

theorem combined_loss_each_step:
  assumes "k < nat steps"
  shows "\<exists>s_k s'. generate_target_adversaries fw model base_image (Some oi) (Some ti) (int k) s = Inr s_k
      \<and> generate_target_adversaries fw model base_image (Some oi) (Some ti) steps s = Inr s'
      \<and> losses s' ! (length (losses s) + k) =
          - sccLoss fw oi (model (weights s_k) (preprocess_input fw (tensor_add (baseImage s_k) (delta s_k))))
          + sccLoss fw ti (model (weights s_k) (preprocess_input fw (tensor_add (baseImage s_k) (delta s_k))))"
proof -
  let ?body = "loop_body fw model (Some oi) (Some ti)"
  from run_upto [of fw model oi ti k s] obtain s_k where
    rk: "for_steps ?body [0..<k] s = Inr s_k" and lenk: "length (losses s_k) = length (losses s) + k"
    by blast
  define l where "l = total_loss fw model s_k oi ti (delta s_k)"
  obtain s1 where r1: "?body k s_k = Inr s1" and l1: "losses s1 = losses s_k @ [l]"
    by (simp add: loop_body_Some l_def)
  from for_steps_frame [of fw model oi ti "[Suc k..<nat steps]" s1] obtain s' ls where
    r': "for_steps ?body [Suc k..<nat steps] s1 = Inr s'" and l': "losses s' = losses s1 @ ls"
    by blast
  have split: "[0..<nat steps] = [0..<k] @ k # [Suc k..<nat steps]"
  proof -
    have "[0..<nat steps] = [0..<k] @ [k..<nat steps]"
      using assms by (simp add: upt_split)
    also have "[k..<nat steps] = k # [Suc k..<nat steps]"
      using assms by (simp add: upt_conv_Cons)
    finally show ?thesis .
  qed
  have run: "for_steps ?body [0..<nat steps] s = Inr s'"
    using rk r1 r' by (simp add: split for_steps_append)
  have "losses s' ! (length (losses s) + k) = l"
    using lenk by (simp add: l' l1 nth_append)
  then show ?thesis
    using rk run by (simp add: generate_target_adversaries_def l_def total_loss_def Let_def)
qed

text \<open>
  C8. After every step \<open>k\<close> of a run (the state \<open>s_k\<close>, from which the rest of the
  run goes on) the base image and the weights of the classifier are what they were
  before the loop.
\<close>

theorem only_delta_mutated:
  assumes "k \<le> nat steps"
  shows "\<exists>s_k s'. generate_target_adversaries fw model base_image (Some oi) (Some ti) (int k) s = Inr s_k
      \<and> baseImage s_k = baseImage s \<and> weights s_k = weights s
      \<and> for_steps (loop_body fw model (Some oi) (Some ti)) [k..<nat steps] s_k = Inr s'
      \<and> generate_target_adversaries fw model base_image (Some oi) (Some ti) steps s = Inr s'"
proof -
  let ?body = "loop_body fw model (Some oi) (Some ti)"
  from for_steps_frame [of fw model oi ti "[0..<k]" s] obtain s_k where
    rk: "for_steps ?body [0..<k] s = Inr s_k" "baseImage s_k = baseImage s" "weights s_k = weights s"
    by blast
  from for_steps_frame [of fw model oi ti "[k..<nat steps]" s_k] obtain s' where
    r': "for_steps ?body [k..<nat steps] s_k = Inr s'"
    by blast
  have "for_steps ?body [0..<nat steps] s = Inr s'"
    using rk r' by (simp add: upt_split [OF assms] for_steps_append)
  with rk r' show ?thesis
    by (simp add: generate_target_adversaries_def)
qed

text \<open>
  C9. The argument \<open>base_image\<close> has no influence: with the same state (the module-level
  \<open>baseImage\<close>, \<open>optimizer\<close>, \<open>epsilon\<close> and \<open>delta\<close>) and the same other arguments, any two
  values of it give the same result.
\<close>

theorem base_image_argument_unused:
  "generate_target_adversaries fw model base_image1 original_class_index target_class_index steps s
   = generate_target_adversaries fw model base_image2 original_class_index target_class_index steps s"
  by (simp add: generate_target_adversaries_def)

theorem fixed_iteration_count_witness:
  "(0::int) \<le> 11
   \<and> (\<exists>s'. generate_target_adversaries sample_framework (call sample_framework)
               (baseImage sample_state) (Some 281) (Some 574) 11 sample_state = Inr s'
      \<and> int (length (losses s')) = int (length (losses sample_state)) + 11
      \<and> stdout s' = stdout sample_state @ map (\<lambda>k. PrintLoss k (losses s' ! (length (losses sample_state) + k)))
                                 (filter (\<lambda>k. k mod 10 = 0) [0..<nat 11]))"
  using fixed_iteration_count [of 11 sample_framework "call sample_framework"
      "baseImage sample_state" 281 574 sample_state]
  by simp

theorem combined_loss_each_step_witness:
  "(10::nat) < nat 11
   \<and> (\<exists>s_k s'. generate_target_adversaries sample_framework (call sample_framework)
               (baseImage sample_state) (Some 281) (Some 574) (int 10) sample_state = Inr s_k
      \<and> generate_target_adversaries sample_framework (call sample_framework)
               (baseImage sample_state) (Some 281) (Some 574) 11 sample_state = Inr s'
      \<and> losses s' ! (length (losses sample_state) + 10) =
          - sccLoss sample_framework 281 (call sample_framework (weights s_k)
              (preprocess_input sample_framework (tensor_add (baseImage s_k) (delta s_k))))
          + sccLoss sample_framework 574 (call sample_framework (weights s_k)
              (preprocess_input sample_framework (tensor_add (baseImage s_k) (delta s_k)))))"
  using combined_loss_each_step [of 10 11 sample_framework "call sample_framework"
      "baseImage sample_state" 281 574 sample_state]
  by simp

theorem only_delta_mutated_witness:
  "(10::nat) \<le> nat 11
   \<and> (\<exists>s_k s'. generate_target_adversaries sample_framework (call sample_framework)
               (baseImage sample_state) (Some 281) (Some 574) (int 10) sample_state = Inr s_k
      \<and> baseImage s_k = baseImage sample_state \<and> weights s_k = weights sample_state
      \<and> for_steps (loop_body sample_framework (call sample_framework) (Some 281) (Some 574))
           [10..<nat 11] s_k = Inr s'
      \<and> generate_target_adversaries sample_framework (call sample_framework)
               (baseImage sample_state) (Some 281) (Some 574) 11 sample_state = Inr s')"
  using only_delta_mutated [of 10 11 sample_framework "call sample_framework"
      "baseImage sample_state" 281 574 sample_state]
  by simp

text \<open>
  C1. The last statement of the loop body adds the clipped perturbation to the
  perturbation (\<open>assign_add\<close>) where the bound needs it assigned. One step from a zero
  perturbation with \<open>epsilon = 2/255\<close>: the update moves every element to \<open>-1/100\<close>, its
  clipped value is \<open>-2/255\<close>, and the element ends at \<open>-1/100 - 2/255 = -91/5100\<close>, below
  \<open>-epsilon\<close>.
\<close>

theorem delta_leaves_epsilon_interval:
  "\<exists>s'. generate_target_adversaries sample_framework (call sample_framework)
           (baseImage sample_state) (Some 281) (Some 574) 1 sample_state = Inr s'
      \<and> epsilon s' = 2 / 255
      \<and> data (delta s') = [- (91 / 5100), - (91 / 5100), - (91 / 5100)]
      \<and> - (91 / 5100) < - (2 / 255 :: real)"
  by (simp add: generate_target_adversaries_def loop_body_Some sample_framework_def sample_state_def
      sign_step_def tensor_add_def clip_eps_def clip_by_value_def map_array_def)

section \<open>The resolver\<close>

lemma lower_char_variant:
  assumes "case_variant u l"
  shows "lower_char u = l" and "lower_char l = l"
proof -
  have l: "l = char_of ((of_char u :: nat) + 32)"
    using assms by (metis case_variant_def char_of_char)
  show "lower_char u = l"
    using assms by (simp add: l lower_char_def case_variant_def capital_def Let_def)
  show "lower_char l = l"
    using assms by (auto simp add: lower_char_def case_variant_def capital_def Let_def)
qed

lemma lower_underscore: "lower_char (CHR ''_'') = CHR ''_''" "lower_char (CHR '' '') = CHR '' ''"
  by (simp_all add: lower_char_def)

lemma normal_char_same: "same_label_char c d \<Longrightarrow> normal_char c = normal_char d"
  unfolding same_label_char_def normal_char_def
  using lower_char_variant lower_underscore by (elim disjE conjE exE) (simp_all)

lemma normalize_map: "replace (lower s) (CHR ''_'') (CHR '' '') = map normal_char s"
  by (simp add: replace_def lower_def normal_char_def)

lemma same_label_normal: "same_label s t \<Longrightarrow> map normal_char s = map normal_char t"
  unfolding same_label_def
  by (induction s t rule: list_all2_induct) (simp_all add: normal_char_same)

text \<open>
  C3. Two labels that differ only in letter case and in underscores for spaces resolve
  to the same result, which is the entry of the map at the lower-cased label with
  spaces for underscores: its index, or \<open>None\<close> when it has none.
\<close>

theorem resolver_case_underscore_insensitive:
  assumes "same_label s t"
  shows "get_target_class_index m s = get_target_class_index m t
       \<and> get_target_class_index m s = m (replace (lower s) (CHR ''_'') (CHR '' ''))"
  using same_label_normal [OF assms] by (simp add: get_target_class_index_def normalize_map)

theorem resolver_case_underscore_insensitive_witness:
  "same_label ''Soccer_Ball'' ''soccer ball''
   \<and> get_target_class_index (imagenet_index sample_framework) ''Soccer_Ball''
       = get_target_class_index (imagenet_index sample_framework) ''soccer ball''
   \<and> get_target_class_index (imagenet_index sample_framework) ''Soccer_Ball''
       = imagenet_index sample_framework (replace (lower ''Soccer_Ball'') (CHR ''_'') (CHR '' ''))
   \<and> get_target_class_index (imagenet_index sample_framework) ''Soccer_Ball'' = Some 805"
proof -
  have same: "same_label ''Soccer_Ball'' ''soccer ball''"
    by (simp add: same_label_def same_label_char_def case_variant_def capital_def)
  have val: "get_target_class_index (imagenet_index sample_framework) ''Soccer_Ball'' = Some 805"
    by code_simp
  note r = resolver_case_underscore_insensitive [OF same, of "imagenet_index sample_framework"]
  from r have a: "get_target_class_index (imagenet_index sample_framework) ''Soccer_Ball''
       = get_target_class_index (imagenet_index sample_framework) ''soccer ball''" by (rule conjunct1)
  from r have b: "get_target_class_index (imagenet_index sample_framework) ''Soccer_Ball''
       = imagenet_index sample_framework (replace (lower ''Soccer_Ball'') (CHR ''_'') (CHR '' ''))"
    by (rule conjunct2)
  from same a b val show ?thesis by (intro conjI)
qed

section \<open>The image written\<close>

lemma length_swap_channels: "length (swap_channels xs) = length xs"
  by (induction xs rule: swap_channels.induct) auto

lemma swap_channels_map: "swap_channels (map f xs) = map f (swap_channels xs)"
  by (induction xs rule: swap_channels.induct) auto


lemma data_adversarial_image:
  "data (adversarial_image b d) =
     swap_channels (map (\<lambda>x. word_of_int (to_integer (min 255 (max x 0)))) (data (tensor_add b d)))"
  by (simp add: adversarial_image_def squeeze_def astype_uint8_def np_clip_def map_array_def
      cvtColor_def Let_def comp_def)

lemma unat_clip_cast:
  "int (unat (word_of_int (to_integer (min 255 (max x 0))) :: uint8)) = \<lfloor>min 255 (max x 0)\<rfloor>"
proof -
  let ?c = "min 255 (max x 0)"
  have c: "0 \<le> ?c" "?c \<le> 255" by auto
  have f: "0 \<le> \<lfloor>?c\<rfloor>" "\<lfloor>?c\<rfloor> \<le> 255"
    using c by (simp_all add: floor_le_iff le_floor_iff)
  have "to_integer ?c = \<lfloor>?c\<rfloor>" using c by (simp add: to_integer_def)
  moreover have "int (unat (word_of_int \<lfloor>?c\<rfloor> :: uint8)) = \<lfloor>?c\<rfloor>"
    using f by (simp add: unat_eq_nat_uint uint_word_of_int)
  ultimately show ?thesis by simp
qed


section \<open>The driver\<close>

lemma loop_body_Inr:
  "loop_body fw model oc tc k s = Inr s1 \<Longrightarrow> \<exists>oi ti. oc = Some oi \<and> tc = Some ti"
  by (auto simp: loop_body_def split: option.splits)

lemma for_steps_output:
  "for_steps (loop_body fw model oc tc) xs s = Inr s' \<Longrightarrow>
     baseImage s' = baseImage s \<and> weights s' = weights s
     \<and> (\<exists>ex. stdout s' = stdout s @ ex \<and> (\<forall>e\<in>set ex. \<exists>k l. e = PrintLoss k l))"
proof (induction xs arbitrary: s)
  case Nil
  then show ?case by simp
next
  case (Cons x xs)
  from Cons.prems obtain s1 where b: "loop_body fw model oc tc x s = Inr s1"
    and r: "for_steps (loop_body fw model oc tc) xs s1 = Inr s'"
    by (auto split: sum.splits)
  from loop_body_Inr [OF b] obtain oi ti where o: "oc = Some oi" "tc = Some ti" by blast
  from b have f: "baseImage s1 = baseImage s" "weights s1 = weights s"
    and out: "stdout s1 = stdout s @ (if x mod 10 = 0 then [PrintLoss x (total_loss fw model s oi ti (delta s))] else [])"
    by (auto simp: o loop_body_Some)
  from Cons.IH [OF r] obtain ex where
    "baseImage s' = baseImage s1" "weights s' = weights s1"
    "stdout s' = stdout s1 @ ex" "\<forall>e\<in>set ex. \<exists>k l. e = PrintLoss k l"
    by blast
  with f out show ?case by auto
qed

lemma generate_output:
  "generate_target_adversaries fw model b oc tc n s = Inr s' \<Longrightarrow>
     baseImage s' = baseImage s \<and> weights s' = weights s
     \<and> (\<exists>ex. stdout s' = stdout s @ ex \<and> (\<forall>e\<in>set ex. \<exists>k l. e = PrintLoss k l))"
  unfolding generate_target_adversaries_def by (rule for_steps_output)

text \<open>
  C4. When the target class name, lower-cased and with spaces for underscores, is not a
  key of the label index map, the run of the driver is one printed error message and
  exit code 0: no image is read, no model loaded, nothing classified or optimized. When
  it is a key, the run does not end in an exit: it prints the three lines about its
  input and goes on to read the image.
\<close>

theorem target_lookup_gates_the_run:
  "(replace (lower target_class) (CHR ''_'') (CHR '' '') \<notin> dom (imagenet_index fw) \<longrightarrow>
      main fw file_in target_class
        = ([Print [Str ''Error: Target class does not exist in ImageNet.'']], Exited 0))
   \<and> (replace (lower target_class) (CHR ''_'') (CHR '' '') \<in> dom (imagenet_index fw) \<longrightarrow>
      (\<forall>c. snd (main fw file_in target_class) \<noteq> Exited c)
      \<and> (\<exists>i rest. fst (main fw file_in target_class)
            = [Print [Str ''Input Filename: '', Str file_in],
               Print [Str ''Target Class: '', Str target_class],
               Print [Str ''Target Class Index: '', IntVal i],
               ImRead file_in] @ rest))"
proof (intro conjI impI)
  assume "replace (lower target_class) (CHR ''_'') (CHR '' '') \<notin> dom (imagenet_index fw)"
  then have "get_target_class_index (imagenet_index fw) target_class = None"
    by (auto simp: get_target_class_index_def)
  then show "main fw file_in target_class
        = ([Print [Str ''Error: Target class does not exist in ImageNet.'']], Exited 0)"
    by (simp add: main_def)
next
  assume "replace (lower target_class) (CHR ''_'') (CHR '' '') \<in> dom (imagenet_index fw)"
  then obtain i where i: "get_target_class_index (imagenet_index fw) target_class = Some i"
    by (auto simp: get_target_class_index_def)
  show "\<forall>c. snd (main fw file_in target_class) \<noteq> Exited c"
    by (auto simp: main_def i Let_def split: sum.splits list.splits prod.splits)
  show "\<exists>i rest. fst (main fw file_in target_class)
            = [Print [Str ''Input Filename: '', Str file_in],
               Print [Str ''Target Class: '', Str target_class],
               Print [Str ''Target Class Index: '', IntVal i],
               ImRead file_in] @ rest"
    by (auto simp: main_def i Let_def split: sum.splits list.splits prod.splits
        dest!: generate_output)
qed

lemma main_run:
  assumes "get_target_class_index (imagenet_index fw) target_class = Some ti"
    and "preprocess_image fw (imread fw file_in) = Inr input_image"
    and "decode_predictions fw (call fw (ResNet50 fw ''imagenet'')
           (preprocess_input fw (tf_constant input_image))) 3 = (cid, ol, oconf) # rest"
    and "generate_target_adversaries fw (call fw) (tf_constant input_image)
           (get_target_class_index (imagenet_index fw) ol) (Some ti) 100
           \<lparr>baseImage = tf_constant input_image, epsilon = 2 / 255,
            delta = zeros_like (tf_constant input_image),
            weights = ResNet50 fw ''imagenet'', optimizer = Adam fw (1 / 100),
            stdout = out, losses = []\<rparr> = Inr s"
    and "out = [Print [Str ''Input Filename: '', Str file_in],
                Print [Str ''Target Class: '', Str target_class],
                Print [Str ''Target Class Index: '', IntVal ti],
                ImRead file_in, LoadModel ''ResNet50'',
                Predict ''ResNet50'' (preprocess_input fw (tf_constant input_image)),
                Print [Str ''Top 3 Predictions: '', Predictions ((cid, ol, oconf) # rest)],
                Print [Str ''Original Class Index: '',
                       index_val (get_target_class_index (imagenet_index fw) ol)]]"
    and "decode_predictions fw (call fw (weights s)
           (preprocess_input fw (tensor_add (baseImage s) (delta s)))) 3 = (cid2, al, aconf) # rest2"
  shows "main fw file_in target_class =
     (stdout s @
      [ImWrite ''output.png'' (adversarial_image (baseImage s) (delta s)),
       Predict ''ResNet50'' (preprocess_input fw (tensor_add (baseImage s) (delta s))),
       Print [Str ''Top 3 Predictions on Adversarial Image: '', Predictions ((cid2, al, aconf) # rest2)],
       ImShow ''Output'' (putText fw (adversarial_image (baseImage s) (delta s))
                           (format_text fw al (aconf * 100))),
       WaitKey 0,
       LoadModel ''MobileNetV2'',
       Predict ''MobileNetV2'' (mobilenet_preprocess_input fw (tensor_add (baseImage s) (delta s))),
       Print [Str ''Top 3 Predictions with MobileNetV2: '',
              Predictions (mobilenet_decode_predictions fw (call fw (MobileNetV2 fw ''imagenet'')
                 (mobilenet_preprocess_input fw (tensor_add (baseImage s) (delta s)))) 3)]],
      Completed)"
  using assms(4) unfolding assms(5)
  by (simp add: main_def assms(1,2,3,6) Let_def)



lemma main_first_prediction:
  assumes "get_target_class_index (imagenet_index fw) target_class = Some ti"
    and "preprocess_image fw (imread fw file_in) = Inr input_image"
  shows "Predict ''ResNet50'' (preprocess_input fw (tf_constant input_image))
           \<in> set (fst (main fw file_in target_class))"
  by (auto simp: main_def assms Let_def split: sum.splits list.splits prod.splits
      dest!: generate_output)

text \<open>
  C6, as amended. \<open>preprocess_image\<close> swaps the channels from BGR to RGB, resizes to
  224 by 224 and adds a leading batch dimension: for a \<open>cv2.resize\<close> that gives the shape
  asked for, the result has shape (1, 224, 224, 3) and holds the bytes of the resized
  image. It does not normalize: the driver applies \<open>preprocess_input\<close> to the result, in
  a call of its own, for the first classification.
\<close>

theorem preprocess_image_leaves_normalization_to_caller:
  assumes "shape (resize fw (cvtColor img COLOR_BGR2RGB) (224, 224)) = [224, 224, 3]"
    and "imread fw file_in = Some img"
    and "replace (lower target_class) (CHR ''_'') (CHR '' '') \<in> dom (imagenet_index fw)"
  shows "\<exists>out. preprocess_image fw (Some img) = Inr out
      \<and> out = expand_dims0 (resize fw (cvtColor img COLOR_BGR2RGB) (224, 224))
      \<and> data (cvtColor img COLOR_BGR2RGB) = swap_channels (data img)
      \<and> shape out = [1, 224, 224, 3]
      \<and> data out = data (resize fw (cvtColor img COLOR_BGR2RGB) (224, 224))
      \<and> Predict ''ResNet50'' (preprocess_input fw (tf_constant out))
           \<in> set (fst (main fw file_in target_class))"
proof -
  let ?out = "expand_dims0 (resize fw (cvtColor img COLOR_BGR2RGB) (224, 224))"
  have p: "preprocess_image fw (Some img) = Inr ?out"
    by (simp add: preprocess_image_def Let_def)
  obtain ti where ti: "get_target_class_index (imagenet_index fw) target_class = Some ti"
    using assms(3) by (auto simp: get_target_class_index_def)
  have "Predict ''ResNet50'' (preprocess_input fw (tf_constant ?out))
           \<in> set (fst (main fw file_in target_class))"
    using main_first_prediction [OF ti, of file_in ?out] p assms(2) by simp
  moreover have "shape ?out = [1, 224, 224, 3]"
    using assms(1) by (simp add: expand_dims0_def)
  moreover have "data ?out = data (resize fw (cvtColor img COLOR_BGR2RGB) (224, 224))"
    by (simp add: expand_dims0_def)
  moreover have "data (cvtColor img COLOR_BGR2RGB) = swap_channels (data img)"
    by (simp add: cvtColor_def)
  ultimately show ?thesis using p by simp
qed

lemma golf_ball_index:
  "get_target_class_index (imagenet_index sample_framework) ''Golf_Ball'' = Some 574"
  by code_simp

lemma tabby_index:
  "get_target_class_index (imagenet_index sample_framework) ''tabby'' = Some 281"
  by code_simp

theorem preprocess_image_leaves_normalization_to_caller_witness:
  "shape (resize (sample_framework\<lparr>resize := fill_resize\<rparr>)
            (cvtColor \<lparr>shape = [1, 1, 3], data = [10, 20, 30]\<rparr> COLOR_BGR2RGB) (224, 224)) = [224, 224, 3]
   \<and> imread (sample_framework\<lparr>resize := fill_resize\<rparr>) ''cat.png''
        = Some \<lparr>shape = [1, 1, 3], data = [10, 20, 30]\<rparr>
   \<and> replace (lower ''Golf_Ball'') (CHR ''_'') (CHR '' '')
        \<in> dom (imagenet_index (sample_framework\<lparr>resize := fill_resize\<rparr>))
   \<and> (\<exists>out. preprocess_image (sample_framework\<lparr>resize := fill_resize\<rparr>)
               (Some \<lparr>shape = [1, 1, 3], data = [10, 20, 30]\<rparr>) = Inr out
      \<and> shape out = [1, 224, 224, 3]
      \<and> Predict ''ResNet50'' (preprocess_input (sample_framework\<lparr>resize := fill_resize\<rparr>) (tf_constant out))
           \<in> set (fst (main (sample_framework\<lparr>resize := fill_resize\<rparr>) ''cat.png'' ''Golf_Ball'')))"
proof -
  let ?fw = "sample_framework\<lparr>resize := fill_resize\<rparr>"
  let ?img = "\<lparr>shape = [1, 1, 3], data = [10, 20, 30]\<rparr> :: image"
  have a: "shape (resize ?fw (cvtColor ?img COLOR_BGR2RGB) (224, 224)) = [224, 224, 3]"
    by (simp add: fill_resize_def)
  have b: "imread ?fw ''cat.png'' = Some ?img"
    by (simp add: sample_framework_def)
  have "get_target_class_index (imagenet_index ?fw) ''Golf_Ball'' = Some 574"
    using golf_ball_index by simp
  then have c: "replace (lower ''Golf_Ball'') (CHR ''_'') (CHR '' '') \<in> dom (imagenet_index ?fw)"
    by (auto simp: get_target_class_index_def)
  from preprocess_image_leaves_normalization_to_caller [OF a b c]
  have "\<exists>out. preprocess_image ?fw (Some ?img) = Inr out
      \<and> shape out = [1, 224, 224, 3]
      \<and> Predict ''ResNet50'' (preprocess_input ?fw (tf_constant out))
           \<in> set (fst (main ?fw ''cat.png'' ''Golf_Ball''))"
    by blast
  with a b c show ?thesis by (intro conjI)
qed

text \<open>
  C6, as stated, fails: on a one-pixel image with an identity \<open>resize\<close> and mean-centering
  for \<open>preprocess_input\<close>, \<open>preprocess_image\<close> gives the bytes 30, 20, 10, and the
  function of the specification gives the mean-centred values.
\<close>

theorem preprocess_image_not_normalized:
  "preprocess_image sample_framework (Some \<lparr>shape = [1, 1, 3], data = [10, 20, 30]\<rparr>)
     = Inr \<lparr>shape = [1, 1, 1, 3], data = [30, 20, 10]\<rparr>
   \<and> image_preprocessor_spec sample_framework (Some \<lparr>shape = [1, 1, 3], data = [10, 20, 30]\<rparr>)
     = Inr \<lparr>shape = [1, 1, 1, 3], data = [- (93939 / 1000), - (96779 / 1000), - (9368 / 100)]\<rparr>
   \<and> map_sum id tf_constant
        (preprocess_image sample_framework (Some \<lparr>shape = [1, 1, 3], data = [10, 20, 30]\<rparr>))
     \<noteq> image_preprocessor_spec sample_framework (Some \<lparr>shape = [1, 1, 3], data = [10, 20, 30]\<rparr>)"
  by (simp add: preprocess_image_def image_preprocessor_spec_def sample_framework_def
      cvtColor_def expand_dims0_def tf_constant_def map_array_def mean_center_def Let_def)

lemma main_imwrite_run:
  assumes "ImWrite path img \<in> set (fst (main fw file_in target_class))"
  shows "path = ''output.png''
     \<and> (\<exists>ti input_image oc out s.
          get_target_class_index (imagenet_index fw) target_class = Some ti
        \<and> preprocess_image fw (imread fw file_in) = Inr input_image
        \<and> generate_target_adversaries fw (call fw) (tf_constant input_image) oc (Some ti) 100
             \<lparr>baseImage = tf_constant input_image, epsilon = 2 / 255,
              delta = zeros_like (tf_constant input_image),
              weights = ResNet50 fw ''imagenet'', optimizer = Adam fw (1 / 100),
              stdout = out, losses = []\<rparr> = Inr s
        \<and> img = adversarial_image (baseImage s) (delta s))"
proof (cases "get_target_class_index (imagenet_index fw) target_class")
  case None
  with assms show ?thesis by (simp add: main_def)
next
  case (Some ti)
  show ?thesis
  proof (cases "preprocess_image fw (imread fw file_in)")
    case (Inl e)
    with assms Some show ?thesis by (simp add: main_def)
  next
    case (Inr input_image)
    let ?preds = "decode_predictions fw (call fw (ResNet50 fw ''imagenet'')
           (preprocess_input fw (tf_constant input_image))) 3"
    show ?thesis
    proof (cases ?preds)
      case Nil
      with assms Some Inr show ?thesis by (simp add: main_def Let_def)
    next
      case (Cons p rest)
      obtain cid ol oconf where p: "p = (cid, ol, oconf)" by (cases p)
      define out where "out = [Print [Str ''Input Filename: '', Str file_in],
                Print [Str ''Target Class: '', Str target_class],
                Print [Str ''Target Class Index: '', IntVal ti],
                ImRead file_in, LoadModel ''ResNet50'',
                Predict ''ResNet50'' (preprocess_input fw (tf_constant input_image)),
                Print [Str ''Top 3 Predictions: '', Predictions ((cid, ol, oconf) # rest)],
                Print [Str ''Original Class Index: '',
                       index_val (get_target_class_index (imagenet_index fw) ol)]]"
      let ?s0 = "\<lparr>baseImage = tf_constant input_image, epsilon = 2 / 255,
              delta = zeros_like (tf_constant input_image),
              weights = ResNet50 fw ''imagenet'', optimizer = Adam fw (1 / 100),
              stdout = out, losses = []\<rparr>"
      let ?gen = "generate_target_adversaries fw (call fw) (tf_constant input_image)
             (get_target_class_index (imagenet_index fw) ol) (Some ti) 100 ?s0"
      show ?thesis
      proof (cases ?gen)
        case (Inl e)
        with assms Some Inr Cons p show ?thesis
          by (simp add: main_def Let_def out_def)
      next
        case gen: (Inr s)
        from generate_output [OF gen] obtain ex where
          ex: "stdout s = out @ ex" "\<forall>e\<in>set ex. \<exists>k l. e = PrintLoss k l"
          by auto
        have notin: "ImWrite path img \<notin> set (stdout s)"
          using ex by (auto simp: out_def)
        have "path = ''output.png'' \<and> img = adversarial_image (baseImage s) (delta s)"
          using assms Some Inr Cons p gen [unfolded out_def] notin
          by (auto simp: main_def Let_def split: list.splits prod.splits)
        with Some Inr gen show ?thesis by blast
      qed
    qed
  qed
qed

text \<open>
  C7. An image the driver writes is written to \<open>output.png\<close>, and it is
  \<open>adversarial_image\<close> of the base image and the perturbation in the state \<open>s\<close> that the
  optimizer returned in this run (started from the preprocessed input image and a zero
  perturbation). It has as many elements as \<open>baseImage + delta\<close>, and position by
  position its byte is the integer part of the element of the sum there (in the channel
  order of the file), clipped into [0, 255]: the clipped value lies in [0, 255] and the
  cast to uint8 does not wrap.
\<close>

theorem persisted_image_clipped_to_bytes:
  assumes "ImWrite path img \<in> set (fst (main fw file_in target_class))"
  shows "path = ''output.png''
     \<and> (\<exists>ti input_image oc out s.
          preprocess_image fw (imread fw file_in) = Inr input_image
        \<and> generate_target_adversaries fw (call fw) (tf_constant input_image) oc (Some ti) 100
             \<lparr>baseImage = tf_constant input_image, epsilon = 2 / 255,
              delta = zeros_like (tf_constant input_image),
              weights = ResNet50 fw ''imagenet'', optimizer = Adam fw (1 / 100),
              stdout = out, losses = []\<rparr> = Inr s
        \<and> img = adversarial_image (baseImage s) (delta s)
        \<and> length (data img) = length (data (tensor_add (baseImage s) (delta s)))
        \<and> (\<forall>i<length (data img).
              0 \<le> min 255 (max (swap_channels (data (tensor_add (baseImage s) (delta s))) ! i) 0)
            \<and> min 255 (max (swap_channels (data (tensor_add (baseImage s) (delta s))) ! i) 0) \<le> 255
            \<and> int (unat (data img ! i))
                = \<lfloor>min 255 (max (swap_channels (data (tensor_add (baseImage s) (delta s))) ! i) 0)\<rfloor>
            \<and> unat (data img ! i) \<le> 255))"
proof -
  from main_imwrite_run [OF assms] obtain ti input_image oc out s where
    path: "path = ''output.png''"
    and pre: "preprocess_image fw (imread fw file_in) = Inr input_image"
    and gen: "generate_target_adversaries fw (call fw) (tf_constant input_image) oc (Some ti) 100
             \<lparr>baseImage = tf_constant input_image, epsilon = 2 / 255,
              delta = zeros_like (tf_constant input_image),
              weights = ResNet50 fw ''imagenet'', optimizer = Adam fw (1 / 100),
              stdout = out, losses = []\<rparr> = Inr s"
    and img: "img = adversarial_image (baseImage s) (delta s)"
    by blast
  let ?xs = "data (tensor_add (baseImage s) (delta s))"
  have d: "data img = map (\<lambda>x. word_of_int (to_integer (min 255 (max x 0)))) (swap_channels ?xs)"
    by (simp add: img data_adversarial_image swap_channels_map)
  have len: "length (data img) = length ?xs"
    by (simp add: d length_swap_channels)
  have bytes: "\<forall>i<length (data img).
              0 \<le> min 255 (max (swap_channels ?xs ! i) 0)
            \<and> min 255 (max (swap_channels ?xs ! i) 0) \<le> 255
            \<and> int (unat (data img ! i)) = \<lfloor>min 255 (max (swap_channels ?xs ! i) 0)\<rfloor>
            \<and> unat (data img ! i) \<le> 255"
  proof (intro allI impI)
    fix i assume i: "i < length (data img)"
    let ?x = "swap_channels ?xs ! i"
    have w: "data img ! i = word_of_int (to_integer (min 255 (max ?x 0)))"
      using i by (simp add: d)
    have fl: "int (unat (data img ! i)) = \<lfloor>min 255 (max ?x 0)\<rfloor>"
      unfolding w by (rule unat_clip_cast)
    have "\<lfloor>min 255 (max ?x 0)\<rfloor> \<le> 255"
      by (simp add: floor_le_iff)
    with fl have "unat (data img ! i) \<le> 255" by linarith
    with fl show "0 \<le> min 255 (max ?x 0) \<and> min 255 (max ?x 0) \<le> 255
            \<and> int (unat (data img ! i)) = \<lfloor>min 255 (max ?x 0)\<rfloor>
            \<and> unat (data img ! i) \<le> 255"
      by simp
  qed
  from path pre gen img len bytes show ?thesis by blast
qed




lemma sample_step:
  assumes "delta s = \<lparr>shape = [1, 1, 1, 3], data = [- a, - a, - a]\<rparr>" and "0 \<le> a"
    and "epsilon s = 2 / 255" and "fst (optimizer s) = 1 / 100"
  shows "\<exists>s'. loop_body sample_framework (call sample_framework) (Some oi) (Some ti) k s = Inr s'
      \<and> delta s' = \<lparr>shape = [1, 1, 1, 3], data = [- (a + 91 / 5100), - (a + 91 / 5100), - (a + 91 / 5100)]\<rparr>
      \<and> epsilon s' = 2 / 255 \<and> fst (optimizer s') = 1 / 100 \<and> baseImage s' = baseImage s"
  using assms
  by (simp add: loop_body_Some sample_framework_def sign_step_def tensor_add_def clip_eps_def
      clip_by_value_def map_array_def)

lemma sample_loop:
  assumes "delta s = \<lparr>shape = [1, 1, 1, 3], data = [0, 0, 0]\<rparr>"
    and "epsilon s = 2 / 255" and "fst (optimizer s) = 1 / 100"
  shows "\<exists>s'. for_steps (loop_body sample_framework (call sample_framework) (Some oi) (Some ti)) [0..<n] s = Inr s'
      \<and> delta s' = \<lparr>shape = [1, 1, 1, 3],
            data = [- (real n * (91 / 5100)), - (real n * (91 / 5100)), - (real n * (91 / 5100))]\<rparr>
      \<and> epsilon s' = 2 / 255 \<and> fst (optimizer s') = 1 / 100 \<and> baseImage s' = baseImage s"
proof (induction n)
  case 0
  then show ?case using assms by simp
next
  case (Suc n)
  then obtain s1 where r1: "for_steps (loop_body sample_framework (call sample_framework) (Some oi) (Some ti)) [0..<n] s = Inr s1"
    and d1: "delta s1 = \<lparr>shape = [1, 1, 1, 3],
            data = [- (real n * (91 / 5100)), - (real n * (91 / 5100)), - (real n * (91 / 5100))]\<rparr>"
    and e1: "epsilon s1 = 2 / 255" and o1: "fst (optimizer s1) = 1 / 100"
    and b1: "baseImage s1 = baseImage s"
    by blast
  have nonneg: "0 \<le> real n * (91 / 5100)" by simp
  from sample_step [OF d1 nonneg e1 o1, of oi ti n] obtain s2 where
    r2: "loop_body sample_framework (call sample_framework) (Some oi) (Some ti) n s1 = Inr s2"
    and d2: "delta s2 = \<lparr>shape = [1, 1, 1, 3],
         data = [- (real n * (91 / 5100) + 91 / 5100), - (real n * (91 / 5100) + 91 / 5100),
                 - (real n * (91 / 5100) + 91 / 5100)]\<rparr>"
    and rest: "epsilon s2 = 2 / 255" "fst (optimizer s2) = 1 / 100" "baseImage s2 = baseImage s1"
    by blast
  have eq: "real n * (91 / 5100) + 91 / 5100 = real (Suc n) * (91 / 5100)"
    by (simp add: algebra_simps)
  have "for_steps (loop_body sample_framework (call sample_framework) (Some oi) (Some ti)) [0..<Suc n] s = Inr s2"
    using r1 r2 by (simp add: for_steps_append)
  with d2 rest b1 show ?case by (simp only: eq) simp
qed

lemma sample_written:
  "ImWrite ''output.png'' \<lparr>shape = [3], data = [8, 18, 28]\<rparr>
     \<in> set (fst (main sample_framework ''cat.png'' ''Golf_Ball''))"
proof -
  let ?fw = sample_framework
  let ?input = "\<lparr>shape = [1, 1, 1, 3], data = [30, 20, 10]\<rparr> :: image"
  let ?preds = "[(''n02123045'', ''tabby'', 1 / 2), (''n03445777'', ''golf_ball'', 1 / 4),
                 (''n04254680'', ''soccer_ball'', 1 / 8)] :: (string \<times> string \<times> real) list"
  have b: "preprocess_image ?fw (imread ?fw ''cat.png'') = Inr ?input"
    by (simp add: preprocess_image_def sample_framework_def cvtColor_def expand_dims0_def Let_def)
  have c: "decode_predictions ?fw p 3 = (''n02123045'', ''tabby'', 1 / 2) # tl ?preds" for p
    by (simp add: sample_framework_def eval_nat_numeral)
  define out where "out = [Print [Str ''Input Filename: '', Str ''cat.png''],
                Print [Str ''Target Class: '', Str ''Golf_Ball''],
                Print [Str ''Target Class Index: '', IntVal 574],
                ImRead ''cat.png'', LoadModel ''ResNet50'',
                Predict ''ResNet50'' (preprocess_input ?fw (tf_constant ?input)),
                Print [Str ''Top 3 Predictions: '', Predictions ((''n02123045'', ''tabby'', 1 / 2) # tl ?preds)],
                Print [Str ''Original Class Index: '',
                       index_val (get_target_class_index (imagenet_index ?fw) ''tabby'')]]"
  let ?s0 = "\<lparr>baseImage = tf_constant ?input, epsilon = 2 / 255,
            delta = zeros_like (tf_constant ?input),
            weights = ResNet50 ?fw ''imagenet'', optimizer = Adam ?fw (1 / 100),
            stdout = out, losses = []\<rparr>"
  have z: "delta ?s0 = \<lparr>shape = [1, 1, 1, 3], data = [0, 0, 0]\<rparr>"
    by (simp add: zeros_like_def tf_constant_def map_array_def)
  have o: "fst (optimizer ?s0) = 1 / 100"
    by (simp add: sample_framework_def)
  from sample_loop [OF z _ o, of 281 574 "nat 100"]
  obtain s where run: "for_steps (loop_body ?fw (call ?fw) (Some 281) (Some 574)) [0..<nat 100] ?s0 = Inr s"
    and ds: "delta s = \<lparr>shape = [1, 1, 1, 3],
            data = [- (real (nat 100) * (91 / 5100)), - (real (nat 100) * (91 / 5100)),
                    - (real (nat 100) * (91 / 5100))]\<rparr>"
    and bs: "baseImage s = baseImage ?s0"
    by auto
  have d: "generate_target_adversaries ?fw (call ?fw) (tf_constant ?input)
           (get_target_class_index (imagenet_index ?fw) ''tabby'') (Some 574) 100 ?s0 = Inr s"
    using run by (simp add: generate_target_adversaries_def tabby_index)
  have img: "adversarial_image (baseImage s) (delta s) = \<lparr>shape = [3], data = [8, 18, 28]\<rparr>"
    by (simp add: bs ds adversarial_image_def tensor_add_def squeeze_def np_clip_def astype_uint8_def
        map_array_def cvtColor_def tf_constant_def to_integer_def Let_def)
  from main_run [OF golf_ball_index b c d out_def c]
  show ?thesis by (simp add: img)
qed

theorem persisted_image_clipped_to_bytes_witness:
  "ImWrite ''output.png'' \<lparr>shape = [3], data = [8, 18, 28]\<rparr>
     \<in> set (fst (main sample_framework ''cat.png'' ''Golf_Ball''))
   \<and> (\<exists>ti input_image oc out s.
          preprocess_image sample_framework (imread sample_framework ''cat.png'') = Inr input_image
        \<and> generate_target_adversaries sample_framework (call sample_framework)
             (tf_constant input_image) oc (Some ti) 100
             \<lparr>baseImage = tf_constant input_image, epsilon = 2 / 255,
              delta = zeros_like (tf_constant input_image),
              weights = ResNet50 sample_framework ''imagenet'',
              optimizer = Adam sample_framework (1 / 100),
              stdout = out, losses = []\<rparr> = Inr s
        \<and> \<lparr>shape = [3], data = [8, 18, 28]\<rparr> = adversarial_image (baseImage s) (delta s)
        \<and> length (data (\<lparr>shape = [3], data = [8, 18, 28]\<rparr> :: image))
             = length (data (tensor_add (baseImage s) (delta s)))
        \<and> (\<forall>i<length (data (\<lparr>shape = [3], data = [8, 18, 28]\<rparr> :: image)).
              0 \<le> min 255 (max (swap_channels (data (tensor_add (baseImage s) (delta s))) ! i) 0)
            \<and> min 255 (max (swap_channels (data (tensor_add (baseImage s) (delta s))) ! i) 0) \<le> 255
            \<and> int (unat (data (\<lparr>shape = [3], data = [8, 18, 28]\<rparr> :: image) ! i))
                = \<lfloor>min 255 (max (swap_channels (data (tensor_add (baseImage s) (delta s))) ! i) 0)\<rfloor>
            \<and> unat (data (\<lparr>shape = [3], data = [8, 18, 28]\<rparr> :: image) ! i) \<le> 255))"
proof -
  note w = sample_written
  from persisted_image_clipped_to_bytes [OF w] have
    "\<exists>ti input_image oc out s.
          preprocess_image sample_framework (imread sample_framework ''cat.png'') = Inr input_image
        \<and> generate_target_adversaries sample_framework (call sample_framework)
             (tf_constant input_image) oc (Some ti) 100
             \<lparr>baseImage = tf_constant input_image, epsilon = 2 / 255,
              delta = zeros_like (tf_constant input_image),
              weights = ResNet50 sample_framework ''imagenet'',
              optimizer = Adam sample_framework (1 / 100),
              stdout = out, losses = []\<rparr> = Inr s
        \<and> \<lparr>shape = [3], data = [8, 18, 28]\<rparr> = adversarial_image (baseImage s) (delta s)
        \<and> length (data (\<lparr>shape = [3], data = [8, 18, 28]\<rparr> :: image))
             = length (data (tensor_add (baseImage s) (delta s)))
        \<and> (\<forall>i<length (data (\<lparr>shape = [3], data = [8, 18, 28]\<rparr> :: image)).
              0 \<le> min 255 (max (swap_channels (data (tensor_add (baseImage s) (delta s))) ! i) 0)
            \<and> min 255 (max (swap_channels (data (tensor_add (baseImage s) (delta s))) ! i) 0) \<le> 255
            \<and> int (unat (data (\<lparr>shape = [3], data = [8, 18, 28]\<rparr> :: image) ! i))
                = \<lfloor>min 255 (max (swap_channels (data (tensor_add (baseImage s) (delta s))) ! i) 0)\<rfloor>
            \<and> unat (data (\<lparr>shape = [3], data = [8, 18, 28]\<rparr> :: image) ! i) \<le> 255)"
    by (rule conjunct2)
  with w show ?thesis by (rule conjI)
qed


theorem target_lookup_gates_the_run_witness:
  "replace (lower ''unicorn'') (CHR ''_'') (CHR '' '') \<notin> dom (imagenet_index sample_framework)
   \<and> main sample_framework ''cat.png'' ''unicorn''
        = ([Print [Str ''Error: Target class does not exist in ImageNet.'']], Exited 0)
   \<and> replace (lower ''Golf_Ball'') (CHR ''_'') (CHR '' '') \<in> dom (imagenet_index sample_framework)
   \<and> snd (main sample_framework ''cat.png'' ''Golf_Ball'') \<noteq> Exited 0
   \<and> (\<exists>i rest. fst (main sample_framework ''cat.png'' ''Golf_Ball'')
            = [Print [Str ''Input Filename: '', Str ''cat.png''],
               Print [Str ''Target Class: '', Str ''Golf_Ball''],
               Print [Str ''Target Class Index: '', IntVal i],
               ImRead ''cat.png''] @ rest)"
proof -
  have "get_target_class_index (imagenet_index sample_framework) ''unicorn'' = None"
    by code_simp
  then have a: "replace (lower ''unicorn'') (CHR ''_'') (CHR '' '') \<notin> dom (imagenet_index sample_framework)"
    by (auto simp: get_target_class_index_def)
  have p: "replace (lower ''Golf_Ball'') (CHR ''_'') (CHR '' '') \<in> dom (imagenet_index sample_framework)"
    using golf_ball_index by (auto simp: get_target_class_index_def)
  note r1 = target_lookup_gates_the_run [of "''unicorn''" sample_framework "''cat.png''"]
  note r2 = target_lookup_gates_the_run [of "''Golf_Ball''" sample_framework "''cat.png''"]
  from r1 a have x: "main sample_framework ''cat.png'' ''unicorn''
        = ([Print [Str ''Error: Target class does not exist in ImageNet.'']], Exited 0)"
    by blast
  from r2 p have y: "snd (main sample_framework ''cat.png'' ''Golf_Ball'') \<noteq> Exited 0"
    and z: "\<exists>i rest. fst (main sample_framework ''cat.png'' ''Golf_Ball'')
            = [Print [Str ''Input Filename: '', Str ''cat.png''],
               Print [Str ''Target Class: '', Str ''Golf_Ball''],
               Print [Str ''Target Class Index: '', IntVal i],
               ImRead ''cat.png''] @ rest"
    by blast+
  from a x p y z show ?thesis by (intro conjI)
qed

end
